theory Spec2Isabelle
  imports Main "HOL-Library.Sublist"
begin

section \<open>Strings, log lines and the collaborators of main.go\<close>

text \<open>
  A Go string is a sequence of bytes; it is modelled as \<open>string\<close> (a list of 8-bit
  characters), and \<open>==\<close> on Go strings is equality of the lists. The line feed that the
  source writes \<open>"\n"\<close> is the character \<open>newline\<close>.
\<close>

definition newline :: char where
  "newline = CHR 0x0A"

text \<open>
  A call of the \<open>log\<close> package is recorded with its literal format string and its
  arguments: \<open>Printf f args\<close> is \<open>log.Printf(f, args...)\<close> and \<open>Print args\<close> is
  \<open>log.Print(args...)\<close>. An \<open>error\<close> value is recorded by its message.
\<close>

datatype log_entry = Printf string "string list" | Print "string list"

type_synonym error = string

text \<open>
  The diff fragments of \<open>github.com/sergi/go-diff/diffmatchpatch\<close>: a fragment has an
  operation (\<open>Type\<close>) and a text.
\<close>

datatype operation = DiffDelete | DiffInsert | DiffEqual

record diff =
  Type :: operation
  Text :: string

text \<open>
  The functions main.go calls in other packages are parameters of the model, so that
  every theorem holds whatever these functions compute:
  \<^item> \<open>NewTable\<close> is \<open>route.NewTable\<close>, from the merged text to an error or a table;
  \<^item> \<open>DiffMain\<close> is \<open>dmp.New().DiffMain\<close>;
  \<^item> \<open>TrimSpace\<close> is \<open>strings.TrimSpace\<close>.
\<close>

record 'tbl deps =
  NewTable :: "string \<Rightarrow> error + 'tbl"
  DiffMain :: "string \<Rightarrow> string \<Rightarrow> bool \<Rightarrow> diff list"
  TrimSpace :: "string \<Rightarrow> string"

section \<open>logRoutes\<close>

text \<open>
  \<open>strings.Replace(t, "\n", "\n" + p, -1)\<close>: the old string is the single byte
  \<open>newline\<close>, so every occurrence of that byte is replaced, left to right.
\<close>

fun Replace_newline :: "string \<Rightarrow> string \<Rightarrow> string" where
  "Replace_newline p [] = []"
| "Replace_newline p (c # cs) =
     (if c = newline then (newline # p) @ Replace_newline p cs
      else c # Replace_newline p cs)"

text \<open>
  The closure \<open>fmtDiff\<close>: the loop over the fragments, with the buffer \<open>b\<close> as an
  accumulator. A fragment whose trimmed text is empty is skipped; the \<open>switch\<close> has no
  case for an equal fragment, which writes nothing.
\<close>

fun fmtDiff_loop :: "(string \<Rightarrow> string) \<Rightarrow> diff list \<Rightarrow> string \<Rightarrow> string" where
  "fmtDiff_loop trim [] b = b"
| "fmtDiff_loop trim (d # ds) b =
     (let t = trim (Text d) in
      if t = [] then fmtDiff_loop trim ds b
      else (case Type d of
              DiffDelete \<Rightarrow> fmtDiff_loop trim ds (b @ ''- '' @ Replace_newline ''- '' t)
            | DiffInsert \<Rightarrow> fmtDiff_loop trim ds (b @ ''+ '' @ Replace_newline ''+ '' t)
            | DiffEqual \<Rightarrow> fmtDiff_loop trim ds b))"

definition fmtDiff :: "(string \<Rightarrow> string) \<Rightarrow> diff list \<Rightarrow> string" where
  "fmtDiff trim diffs = fmtDiff_loop trim diffs []"

definition defFormat :: string where
  "defFormat = ''delta''"

text \<open>
  \<open>logRoutes\<close> returns the log lines it writes, in order. The default case of the
  \<open>switch\<close> calls \<open>logRoutes\<close> again with \<open>defFormat\<close>; the recursion ends after
  one call. (The parameter \<open>last\<close> of the source is written \<open>last'\<close>.)
\<close>

function logRoutes :: "'tbl deps \<Rightarrow> string \<Rightarrow> string \<Rightarrow> string \<Rightarrow> log_entry list" where
  "logRoutes env last' next format =
     (if format = ''delta'' then
        (let delta = fmtDiff (TrimSpace env) (DiffMain env last' next True) in
         if delta \<noteq> [] then [Printf (''[INFO] Config updates'' @ [newline] @ ''%s'') [delta]]
         else [])
      else if format = ''all'' then
        [Printf (''[INFO] Updated config to'' @ [newline] @ ''%s'') [next]]
      else
        Printf ''[WARN] Invalid route format %q. Defaulting to %q'' [format, defFormat]
          # logRoutes env last' next defFormat)"
  by pat_completeness auto
termination
  by (relation "measure (\<lambda>(env, last', next, format). if format = ''delta'' then 0 else 1)")
     (auto simp: defFormat_def)

section \<open>watchBackend: the reconciliation loop\<close>

text \<open>
  The local variables of \<open>watchBackend\<close> (\<open>last\<close>, here \<open>lastcfg\<close>, \<open>svccfg\<close>,
  \<open>mancfg\<close>), the table held by the route package (written by \<open>route.SetTable\<close>, read
  by \<open>route.GetTable\<close>) and the calls and log lines made so far, oldest first.
\<close>

datatype 'tbl effect = NewTable_call string | SetTable_call 'tbl | Logged log_entry

record 'tbl loop_state =
  lastcfg :: string
  svccfg :: string
  mancfg :: string
  table :: 'tbl
  trace :: "'tbl effect list"

text \<open>One wake of the \<open>select\<close>: a value received on \<open>svc\<close> or on \<open>man\<close>.\<close>

datatype wake = Svc string | Man string

definition receive :: "wake \<Rightarrow> 'tbl loop_state \<Rightarrow> 'tbl loop_state" where
  "receive ev s = (case ev of Svc v \<Rightarrow> s\<lparr>svccfg := v\<rparr> | Man v \<Rightarrow> s\<lparr>mancfg := v\<rparr>)"

text \<open>The text \<open>next := svccfg + "\n" + mancfg\<close>.\<close>

definition merged :: "'tbl loop_state \<Rightarrow> string" where
  "merged s = svccfg s @ [newline] @ mancfg s"

text \<open>The pair of texts the loop holds: the last value received on each channel.\<close>

definition pending :: "'tbl loop_state \<Rightarrow> string \<times> string" where
  "pending s = (svccfg s, mancfg s)"

text \<open>
  One iteration of the \<open>for\<close> loop, from the \<open>select\<close> to the next \<open>continue\<close> or
  to the end of the body. Every branch gives the state in which the loop waits again.
\<close>

definition watchBackend_iter ::
  "'tbl deps \<Rightarrow> string \<Rightarrow> wake \<Rightarrow> 'tbl loop_state \<Rightarrow> 'tbl loop_state" where
  "watchBackend_iter env format ev s =
     (let s1 = receive ev s;
          next = merged s1
      in if next = lastcfg s1 then s1
         else (case NewTable env next of
                 Inl err \<Rightarrow>
                   s1\<lparr>trace := trace s1 @ [NewTable_call next, Logged (Printf ''[WARN] %s'' [err])]\<rparr>
               | Inr t \<Rightarrow>
                   s1\<lparr>table := t,
                      trace := trace s1 @ [NewTable_call next, SetTable_call t]
                                 @ map Logged (logRoutes env (lastcfg s1) next format),
                      lastcfg := next\<rparr>))"

text \<open>The loop over the wakes that arrive; it only ends with the process.\<close>

fun watchBackend_loop ::
  "'tbl deps \<Rightarrow> string \<Rightarrow> 'tbl loop_state \<Rightarrow> wake list \<Rightarrow> 'tbl loop_state" where
  "watchBackend_loop env format s [] = s"
| "watchBackend_loop env format s (ev # evs) =
     watchBackend_loop env format (watchBackend_iter env format ev s) evs"

text \<open>The three strings are declared without a value: they start empty.\<close>

definition init_state :: "'tbl \<Rightarrow> 'tbl loop_state" where
  "init_state t0 = \<lparr>lastcfg = [], svccfg = [], mancfg = [], table = t0, trace = []\<rparr>"

text \<open>The number of calls of \<open>route.NewTable\<close> and of \<open>route.SetTable\<close> in a trace.\<close>

fun is_NewTable_call :: "'tbl effect \<Rightarrow> bool" where
  "is_NewTable_call (NewTable_call x) = True"
| "is_NewTable_call e = False"

fun is_SetTable_call :: "'tbl effect \<Rightarrow> bool" where
  "is_SetTable_call (SetTable_call t) = True"
| "is_SetTable_call e = False"

definition rebuilds :: "'tbl effect list \<Rightarrow> nat" where
  "rebuilds tr = length (filter is_NewTable_call tr)"

definition publishes :: "'tbl effect list \<Rightarrow> nat" where
  "publishes tr = length (filter is_SetTable_call tr)"

section \<open>Configuration\<close>

record proxy_cfg =
  Strategy :: string
  Matcher :: string
  LogRoutes :: string

text \<open>\<open>Timeout\<close> and \<open>Retry\<close> are durations, \<open>time.Now()\<close> a point in time, in nanoseconds.\<close>

record registry_cfg =
  Backend :: string
  Timeout :: int
  Retry :: int
  File_Path :: string
  Static_Routes :: string

record metrics_cfg =
  Target :: string

record config =
  Proxy :: proxy_cfg
  Registry :: registry_cfg
  Metrics :: metrics_cfg

definition watchBackend :: "'tbl deps \<Rightarrow> config \<Rightarrow> 'tbl \<Rightarrow> wake list \<Rightarrow> 'tbl loop_state" where
  "watchBackend env cfg t0 evs = watchBackend_loop env (LogRoutes (Proxy cfg)) (init_state t0) evs"

section \<open>initBackend\<close>

text \<open>
  How a call ends: it returns, or the process is ended by \<open>exit.Fatal\<close> (with the
  arguments it prints) or by \<open>exit.Exit\<close> (with the status).
\<close>

datatype outcome = Returned | Fatal "string list" | Exit int

datatype init_event =
    File_NewBackend string
  | Static_NewBackend string
  | Consul_NewBackend
  | Register_call
  | Init_log log_entry
  | Sleep int

text \<open>
  What one iteration of the loop in \<open>initBackend\<close> observes of the world: the error of
  the backend's constructor (\<open>None\<close> is \<open>nil\<close>), the error of \<open>Register()\<close> (read only
  when the constructor succeeded), \<open>time.Now()\<close> at the deadline test and
  \<open>exit.ShuttingDown()\<close> after the sleep.
\<close>

record attempt =
  create_err :: "error option"
  register_err :: "error option"
  now :: int
  shutting_down :: bool

text \<open>The \<open>switch\<close> on \<open>cfg.Registry.Backend\<close>; \<open>None\<close> is the default case.\<close>

definition backend_switch :: "registry_cfg \<Rightarrow> init_event option" where
  "backend_switch cfg =
     (if Backend cfg = ''file'' then Some (File_NewBackend (File_Path cfg))
      else if Backend cfg = ''static'' then Some (Static_NewBackend (Static_Routes cfg))
      else if Backend cfg = ''consul'' then Some Consul_NewBackend
      else None)"

text \<open>
  The constructor call and, when it gave no error, \<open>Register()\<close>: the value of \<open>err\<close>
  at the \<open>log.Print\<close>, and the calls made.
\<close>

definition try_register :: "init_event \<Rightarrow> attempt \<Rightarrow> error option \<times> init_event list" where
  "try_register ctor a =
     (case create_err a of
        Some e \<Rightarrow> (Some e, [ctor])
      | None \<Rightarrow> (register_err a, [ctor, Register_call]))"

definition emit :: "'e list \<Rightarrow> 'r \<times> 'e list \<Rightarrow> 'r \<times> 'e list" where
  "emit evs r = (fst r, evs @ snd r)"

text \<open>
  The \<open>for\<close> loop. The result is \<open>None\<close> when the observations run out while the loop
  is still retrying, and otherwise how \<open>initBackend\<close> ended; with it, the calls made.
\<close>

fun initBackend_loop ::
  "registry_cfg \<Rightarrow> int \<Rightarrow> attempt list \<Rightarrow> outcome option \<times> init_event list" where
  "initBackend_loop cfg deadline [] =
     (case backend_switch cfg of
        None \<Rightarrow> (Some (Fatal [''[FATAL] Unknown registry backend '', Backend cfg]), [])
      | Some ctor \<Rightarrow> (None, []))"
| "initBackend_loop cfg deadline (a # rest) =
     (case backend_switch cfg of
        None \<Rightarrow> (Some (Fatal [''[FATAL] Unknown registry backend '', Backend cfg]), [])
      | Some ctor \<Rightarrow>
          (case fst (try_register ctor a) of
             None \<Rightarrow> (Some Returned, snd (try_register ctor a))
           | Some e \<Rightarrow>
               emit (snd (try_register ctor a)
                       @ [Init_log (Print [''[WARN] Error initializing backend. '', e])])
                 (if deadline < now a then
                    (Some (Fatal [''[FATAL] Timeout registering backend.'']), [])
                  else
                    emit [Sleep (Retry cfg)]
                      (if shutting_down a then (Some (Exit 1), [])
                       else initBackend_loop cfg deadline rest))))"

text \<open>\<open>start\<close> is \<open>time.Now()\<close> at the entry of \<open>initBackend\<close>.\<close>

definition initBackend ::
  "registry_cfg \<Rightarrow> int \<Rightarrow> attempt list \<Rightarrow> outcome option \<times> init_event list" where
  "initBackend cfg start obs = initBackend_loop cfg (start + Timeout cfg) obs"

text \<open>The number of backend constructor calls in a trace.\<close>

fun is_NewBackend :: "init_event \<Rightarrow> bool" where
  "is_NewBackend (File_NewBackend p) = True"
| "is_NewBackend (Static_NewBackend r) = True"
| "is_NewBackend Consul_NewBackend = True"
| "is_NewBackend e = False"

section \<open>The proxies and their Lookup functions\<close>

text \<open>
  \<open>route.Picker\<close> and \<open>route.Matcher\<close> are Go maps from a name to a function; indexing
  a Go map with a key it does not hold gives the zero value \<open>nil\<close>, here \<open>None\<close>. The
  proxy value is modelled by what its \<open>Lookup\<close> closure captures.
\<close>

record ('p, 'm) http_proxy =
  pick :: "'p option"
  match :: "'m option"
  Config :: proxy_cfg

definition newHTTPProxy ::
  "(string \<rightharpoonup> 'p) \<Rightarrow> (string \<rightharpoonup> 'm) \<Rightarrow> config \<Rightarrow> ('p, 'm) http_proxy \<times> log_entry list" where
  "newHTTPProxy route_Picker route_Matcher cfg =
     (\<lparr>pick = route_Picker (Strategy (Proxy cfg)),
       match = route_Matcher (Matcher (Proxy cfg)),
       Config = Proxy cfg\<rparr>,
      [Printf ''[INFO] Using routing strategy %q'' [Strategy (Proxy cfg)],
       Printf ''[INFO] Using route matching %q'' [Matcher (Proxy cfg)]])"

text \<open>
  An HTTP request, as far as the closure reads it: \<open>r.Host\<close>, \<open>r.URL\<close> as it prints,
  and \<open>r.Header.Get\<close>.
\<close>

record request =
  Host :: string
  URL :: string
  Header_Get :: "string \<Rightarrow> string"

text \<open>
  The \<open>Lookup\<close> closure of the HTTP proxy. \<open>table_Lookup\<close> is the method
  \<open>(*route.Table).Lookup\<close>, \<open>tbl\<close> the value of \<open>route.GetTable()\<close>; \<open>None\<close> is a
  \<open>nil\<close> target. The result is the target returned and the lines logged.
\<close>

definition HTTPProxy_Lookup ::
  "('tbl \<Rightarrow> request \<Rightarrow> string \<Rightarrow> 'p option \<Rightarrow> 'm option \<Rightarrow> 'tgt option)
     \<Rightarrow> ('p, 'm) http_proxy \<Rightarrow> 'tbl \<Rightarrow> request \<Rightarrow> 'tgt option \<times> log_entry list" where
  "HTTPProxy_Lookup table_Lookup proxy tbl r =
     (let t = table_Lookup tbl r (Header_Get r ''trace'') (pick proxy) (match proxy)
      in (t, if t = None then [Print [''[WARN] No route for '', Host r, URL r]] else []))"

text \<open>
  The \<open>Lookup\<close> closure of the TCP+SNI proxy; it indexes \<open>route.Picker\<close> on every call.
  \<open>table_LookupHost\<close> is the method \<open>(*route.Table).LookupHost\<close>.
\<close>

definition TCPSNIProxy_Lookup ::
  "('tbl \<Rightarrow> string \<Rightarrow> 'p option \<Rightarrow> 'tgt option) \<Rightarrow> (string \<rightharpoonup> 'p) \<Rightarrow> config
     \<Rightarrow> 'tbl \<Rightarrow> string \<Rightarrow> 'tgt option \<times> log_entry list" where
  "TCPSNIProxy_Lookup table_LookupHost route_Picker cfg tbl serverName =
     (let t = table_LookupHost tbl serverName (route_Picker (Strategy (Proxy cfg)))
      in (t, if t = None then [Print [''[WARN] No route for '', serverName]] else []))"

section \<open>Startup\<close>

text \<open>
  \<open>initMetrics\<close>: the two errors are those of the two calls of \<open>metrics.NewRegistry\<close>.
\<close>

definition initMetrics :: "config \<Rightarrow> error option \<times> error option \<Rightarrow> outcome \<times> log_entry list" where
  "initMetrics cfg errs =
     (if Target (Metrics cfg) = [] then (Returned, [Printf ''[INFO] Metrics disabled'' []])
      else (case fst errs of
              Some e \<Rightarrow> (Fatal [''[FATAL] '', e], [])
            | None \<Rightarrow> (case snd errs of
                         Some e \<Rightarrow> (Fatal [''[FATAL] '', e], [])
                       | None \<Rightarrow> (Returned, []))))"

text \<open>
  What \<open>main\<close> meets between \<open>config.Load\<close> and \<open>startListeners\<close>: the errors of the
  metrics registries, the time at the entry of \<open>initBackend\<close> and what its iterations
  observe.
\<close>

record world =
  metrics_errs :: "error option \<times> error option"
  start :: int
  attempts :: "attempt list"

text \<open>
  \<open>main\<close> after \<open>config.Load\<close> has returned the configuration \<open>cfg\<close>: \<open>initMetrics\<close>,
  \<open>initBackend\<close>, then the proxies, which \<open>startListeners\<close> serves. \<open>initRuntime\<close>,
  \<open>go watchBackend\<close> and \<open>startAdmin\<close> run between them; none of the three ends the
  process before the listeners start. \<open>Registering\<close>: \<open>initBackend\<close> is still retrying
  when the observations end.
\<close>

datatype ('p, 'm) startup = Serving "('p, 'm) http_proxy" | Terminated outcome | Registering

definition main_startup ::
  "(string \<rightharpoonup> 'p) \<Rightarrow> (string \<rightharpoonup> 'm) \<Rightarrow> config \<Rightarrow> world \<Rightarrow> ('p, 'm) startup" where
  "main_startup route_Picker route_Matcher cfg w =
     (case fst (initMetrics cfg (metrics_errs w)) of
        Returned \<Rightarrow>
          (case fst (initBackend (Registry cfg) (start w) (attempts w)) of
             None \<Rightarrow> Registering
           | Some Returned \<Rightarrow> Serving (fst (newHTTPProxy route_Picker route_Matcher cfg))
           | Some out \<Rightarrow> Terminated out)
      | out \<Rightarrow> Terminated out)"

section \<open>Lines of a text\<close>

text \<open>The lines of a text: the pieces between its line feeds (as \<open>strings.Split(s, "\n")\<close>).\<close>

fun split_lines :: "string \<Rightarrow> string list" where
  "split_lines [] = [[]]"
| "split_lines (c # cs) =
     (if c = newline then [] # split_lines cs
      else (c # hd (split_lines cs)) # tl (split_lines cs))"

definition signed_line :: "string \<Rightarrow> bool" where
  "signed_line l = (prefix ''+ '' l \<or> prefix ''- '' l)"

section \<open>Concrete collaborators for the examples\<close>

text \<open>
  \<open>strings.TrimSpace\<close> on ASCII text: it removes leading and trailing tab, line feed,
  vertical tab, form feed, carriage return and space.
\<close>

definition isSpace_ascii :: "char \<Rightarrow> bool" where
  "isSpace_ascii c = (c \<in> set [CHR 0x09, CHR 0x0A, CHR 0x0B, CHR 0x0C, CHR 0x0D, CHR 0x20])"

definition trim_ascii :: "string \<Rightarrow> string" where
  "trim_ascii s = rev (dropWhile isSpace_ascii (rev (dropWhile isSpace_ascii s)))"

text \<open>A coarse diff: equal texts give one equal fragment, others a deletion and an insertion.\<close>

definition whole_diff :: "string \<Rightarrow> string \<Rightarrow> bool \<Rightarrow> diff list" where
  "whole_diff a b checklines =
     (if a = b then [\<lparr>Type = DiffEqual, Text = a\<rparr>]
      else [\<lparr>Type = DiffDelete, Text = a\<rparr>, \<lparr>Type = DiffInsert, Text = b\<rparr>])"

text \<open>A parser that rejects a text holding an exclamation mark; its table is the list of lines.\<close>

definition lines_table :: "string \<Rightarrow> error + string list" where
  "lines_table text = (if CHR ''!'' \<in> set text then Inl ''syntax error'' else Inr (split_lines text))"

definition example_env :: "string list deps" where
  "example_env = \<lparr>NewTable = lines_table, DiffMain = whole_diff, TrimSpace = trim_ascii\<rparr>"

definition example_cfg :: config where
  "example_cfg =
     \<lparr>Proxy = \<lparr>Strategy = ''rnd'', Matcher = ''prefix'', LogRoutes = ''delta''\<rparr>,
      Registry = \<lparr>Backend = ''consul'', Timeout = 10, Retry = 1,
                  File_Path = [], Static_Routes = []\<rparr>,
      Metrics = \<lparr>Target = []\<rparr>\<rparr>"

text \<open>A state of the loop in which the service text \<open>a\<close> has been applied.\<close>

definition half_applied :: "string list loop_state" where
  "half_applied = \<lparr>lastcfg = ''a'' @ [newline], svccfg = ''a'', mancfg = [],
                    table = [''a'', []], trace = []\<rparr>"

text \<open>The two tables of the route package, each with two made-up entries.\<close>

definition example_Picker :: "string \<rightharpoonup> nat" where
  "example_Picker = [''rnd'' \<mapsto> 0, ''rr'' \<mapsto> 1]"

definition example_Matcher :: "string \<rightharpoonup> nat" where
  "example_Matcher = [''prefix'' \<mapsto> 0, ''glob'' \<mapsto> 1]"

text \<open>
  A table that is a list of host names, with lookups that find a host when it is in
  the list, and a request.
\<close>

definition host_list_Lookup ::
  "string list \<Rightarrow> request \<Rightarrow> string \<Rightarrow> nat option \<Rightarrow> nat option \<Rightarrow> string option" where
  "host_list_Lookup tbl r hint p m = (if Host r \<in> set tbl then Some (Host r) else None)"

definition host_list_LookupHost :: "string list \<Rightarrow> string \<Rightarrow> nat option \<Rightarrow> string option" where
  "host_list_LookupHost tbl serverName p = (if serverName \<in> set tbl then Some serverName else None)"

definition example_request :: request where
  "example_request = \<lparr>Host = ''example.com'', URL = ''/foo'', Header_Get = (\<lambda>k. [])\<rparr>"

section \<open>Properties of logRoutes\<close>

declare logRoutes.simps [simp del]

lemma logRoutes_delta:
  "logRoutes env last' next ''delta'' =
     (if fmtDiff (TrimSpace env) (DiffMain env last' next True) = [] then []
      else [Printf (''[INFO] Config updates'' @ [newline] @ ''%s'')
              [fmtDiff (TrimSpace env) (DiffMain env last' next True)]])"
  by (subst logRoutes.simps) (simp add: Let_def)

lemma logRoutes_all:
  "logRoutes env last' next ''all'' =
     [Printf (''[INFO] Updated config to'' @ [newline] @ ''%s'') [next]]"
  by (subst logRoutes.simps) simp

text \<open>
  Claim C5. For every previous and new merged text and every format that is neither
  \<open>delta\<close> nor \<open>all\<close>, \<open>logRoutes\<close> logs the warning about the invalid format and then
  writes exactly what \<open>logRoutes\<close> writes with the format \<open>delta\<close> on the same two
  texts; it does not end the process.
\<close>

theorem logRoutes_unknown_format_falls_back_to_delta:
  "format \<noteq> ''delta'' \<Longrightarrow> format \<noteq> ''all'' \<Longrightarrow>
   logRoutes env last' next format =
     Printf ''[WARN] Invalid route format %q. Defaulting to %q'' [format, ''delta'']
       # logRoutes env last' next ''delta''"
  by (subst logRoutes.simps) (simp add: defFormat_def)

theorem logRoutes_unknown_format_witness:
  "''json'' \<noteq> ''delta'' \<and> ''json'' \<noteq> ''all'' \<and>
   logRoutes example_env ''a'' ''b'' ''json'' =
     [Printf ''[WARN] Invalid route format %q. Defaulting to %q'' [''json'', ''delta''],
      Printf (''[INFO] Config updates'' @ [newline] @ ''%s'') [''- a+ b'']]"
  using logRoutes_unknown_format_falls_back_to_delta [of "''json''" example_env "''a''" "''b''"]
  by (simp add: logRoutes_delta example_env_def whole_diff_def trim_ascii_def
      isSpace_ascii_def fmtDiff_def newline_def)

section \<open>Properties of the reconciliation loop\<close>

lemma filter_Logged_NewTable: "filter is_NewTable_call (map Logged ls) = []"
  by (induction ls) simp_all

lemma filter_Logged_SetTable: "filter is_SetTable_call (map Logged ls) = []"
  by (induction ls) simp_all

lemma lastcfg_receive: "lastcfg (receive ev s) = lastcfg s"
  by (cases ev) (simp_all add: receive_def)

lemma trace_receive: "trace (receive ev s) = trace s"
  by (cases ev) (simp_all add: receive_def)

lemma iter_same:
  "merged (receive ev s) = lastcfg s \<Longrightarrow> watchBackend_iter env format ev s = receive ev s"
  by (simp add: watchBackend_iter_def Let_def lastcfg_receive)

lemma iter_fail:
  "merged (receive ev s) \<noteq> lastcfg s \<Longrightarrow> NewTable env (merged (receive ev s)) = Inl err \<Longrightarrow>
   watchBackend_iter env format ev s =
     (receive ev s)\<lparr>trace := trace s @ [NewTable_call (merged (receive ev s)),
                                         Logged (Printf ''[WARN] %s'' [err])]\<rparr>"
  by (simp add: watchBackend_iter_def Let_def lastcfg_receive trace_receive)

lemma iter_ok:
  "merged (receive ev s) \<noteq> lastcfg s \<Longrightarrow> NewTable env (merged (receive ev s)) = Inr t \<Longrightarrow>
   watchBackend_iter env format ev s =
     (receive ev s)\<lparr>table := t,
        trace := trace s @ [NewTable_call (merged (receive ev s)), SetTable_call t]
                   @ map Logged (logRoutes env (lastcfg s) (merged (receive ev s)) format),
        lastcfg := merged (receive ev s)\<rparr>"
  by (simp add: watchBackend_iter_def Let_def lastcfg_receive trace_receive)

lemma pending_merged: "pending a = pending b \<Longrightarrow> merged a = merged b"
  by (simp add: pending_def merged_def)

lemma rebuilds_iter:
  "rebuilds (trace (watchBackend_iter env format ev s)) =
     rebuilds (trace s) + (if merged (receive ev s) = lastcfg s then 0 else 1)"
proof (cases "merged (receive ev s) = lastcfg s")
  case True
  then show ?thesis by (simp add: iter_same trace_receive)
next
  case False
  show ?thesis
  proof (cases "NewTable env (merged (receive ev s))")
    case (Inl e)
    show ?thesis by (simp add: iter_fail [OF False Inl] False rebuilds_def)
  next
    case (Inr t)
    show ?thesis by (simp add: iter_ok [OF False Inr] False rebuilds_def filter_Logged_NewTable)
  qed
qed

lemma publishes_iter:
  "publishes (trace (watchBackend_iter env format ev s)) =
     publishes (trace s) +
       (if merged (receive ev s) \<noteq> lastcfg s \<and> \<not> isl (NewTable env (merged (receive ev s)))
        then 1 else 0)"
proof (cases "merged (receive ev s) = lastcfg s")
  case True
  then show ?thesis by (simp add: iter_same trace_receive)
next
  case False
  show ?thesis
  proof (cases "NewTable env (merged (receive ev s))")
    case (Inl e)
    show ?thesis by (simp add: iter_fail [OF False Inl] False Inl publishes_def)
  next
    case (Inr t)
    show ?thesis by (simp add: iter_ok [OF False Inr] False Inr publishes_def filter_Logged_SetTable)
  qed
qed

lemma example_merged_ok: "merged (receive (Svc ''a'') (init_state [''old''])) = [CHR ''a'', CHR 0x0A]"
  by (simp add: merged_def receive_def init_state_def newline_def)

lemma example_merged_bad: "merged (receive (Svc ''a!'') (init_state [''old''])) = [CHR ''a'', CHR ''!'', CHR 0x0A]"
  by (simp add: merged_def receive_def init_state_def newline_def)

lemma example_parse_ok: "NewTable example_env [CHR ''a'', CHR 0x0A] = Inr [''a'', []]"
  by (simp add: example_env_def lines_table_def newline_def)

lemma example_parse_bad: "NewTable example_env [CHR ''a'', CHR ''!'', CHR 0x0A] = Inl ''syntax error''"
  by (simp add: example_env_def lines_table_def)

lemma example_step_ok:
  "watchBackend_iter example_env ''all'' (Svc ''a'') (init_state [''old'']) =
     \<lparr>lastcfg = [CHR ''a'', CHR 0x0A], svccfg = ''a'', mancfg = [], table = [''a'', []],
      trace = [NewTable_call [CHR ''a'', CHR 0x0A], SetTable_call [''a'', []],
               Logged (Printf (''[INFO] Updated config to'' @ [CHR 0x0A] @ ''%s'')
                         [[CHR ''a'', CHR 0x0A]])]\<rparr>"
  by (simp add: watchBackend_iter_def receive_def merged_def init_state_def
      example_parse_ok newline_def logRoutes_all Let_def)

lemma example_step_bad:
  "watchBackend_iter example_env ''all'' (Svc ''a!'') (init_state [''old'']) =
     \<lparr>lastcfg = [], svccfg = ''a!'', mancfg = [], table = [''old''],
      trace = [NewTable_call [CHR ''a'', CHR ''!'', CHR 0x0A],
               Logged (Printf ''[WARN] %s'' [''syntax error''])]\<rparr>"
  by (simp add: watchBackend_iter_def receive_def merged_def init_state_def
      example_parse_bad newline_def Let_def)

lemma example_step_bad_any:
  "watchBackend_iter example_env format (Svc ''a!'') (init_state [''old'']) =
     \<lparr>lastcfg = [], svccfg = ''a!'', mancfg = [], table = [''old''],
      trace = [NewTable_call [CHR ''a'', CHR ''!'', CHR 0x0A],
               Logged (Printf ''[WARN] %s'' [''syntax error''])]\<rparr>"
  by (simp add: watchBackend_iter_def receive_def merged_def init_state_def
      example_parse_bad newline_def Let_def)

lemma example_step_bad_again:
  "watchBackend_iter example_env format (Svc ''a!'')
     \<lparr>lastcfg = [], svccfg = ''a!'', mancfg = [], table = [''old''],
      trace = [NewTable_call [CHR ''a'', CHR ''!'', CHR 0x0A],
               Logged (Printf ''[WARN] %s'' [''syntax error''])]\<rparr> =
     \<lparr>lastcfg = [], svccfg = ''a!'', mancfg = [], table = [''old''],
      trace = [NewTable_call [CHR ''a'', CHR ''!'', CHR 0x0A],
               Logged (Printf ''[WARN] %s'' [''syntax error'']),
               NewTable_call [CHR ''a'', CHR ''!'', CHR 0x0A],
               Logged (Printf ''[WARN] %s'' [''syntax error''])]\<rparr>"
  by (simp add: watchBackend_iter_def receive_def merged_def
      example_parse_bad newline_def Let_def)

text \<open>
  Claim C1. When \<open>route.NewTable\<close> returns an error for the merged text of a wake, the
  iteration does not call \<open>route.SetTable\<close>: the table that \<open>route.GetTable\<close> gives is
  the same after the iteration as before it. The only effects are the call of
  \<open>route.NewTable\<close> and one warning with the error (none at all when the text equals
  the one applied last), and the loop goes on with the wakes that follow.
\<close>

theorem parse_failure_leaves_table_untouched:
  "NewTable env (merged (receive ev s)) = Inl err \<Longrightarrow>
   table (watchBackend_iter env format ev s) = table s \<and>
   publishes (trace (watchBackend_iter env format ev s)) = publishes (trace s) \<and>
   trace (watchBackend_iter env format ev s) =
     trace s @ (if merged (receive ev s) = lastcfg s then []
                else [NewTable_call (merged (receive ev s)),
                      Logged (Printf ''[WARN] %s'' [err])]) \<and>
   watchBackend_loop env format s (ev # evs) =
     watchBackend_loop env format (watchBackend_iter env format ev s) evs"
  by (cases ev) (simp_all add: watchBackend_iter_def Let_def receive_def publishes_def)

theorem parse_failure_witness:
  "NewTable example_env (merged (receive (Svc ''a!'') (init_state [''old''])))
     = Inl ''syntax error'' \<and>
   table (watchBackend_iter example_env ''delta'' (Svc ''a!'') (init_state [''old''])) = [''old''] \<and>
   trace (watchBackend_iter example_env ''delta'' (Svc ''a!'') (init_state [''old''])) =
     [NewTable_call (''a!'' @ [newline]), Logged (Printf ''[WARN] %s'' [''syntax error''])]"
proof -
  have h: "NewTable example_env (merged (receive (Svc ''a!'') (init_state [''old''])))
             = Inl ''syntax error''"
    by (simp add: example_env_def lines_table_def merged_def receive_def init_state_def)
  show ?thesis
    using h parse_failure_leaves_table_untouched [OF h, of "''delta''" "[]"]
    by (simp add: merged_def receive_def init_state_def)
qed

text \<open>
  Claim C4. A wake on one channel stores the value received in that channel's variable
  only; the other variable keeps the value it had (both start empty), and the merged
  text that is compared and handed to \<open>route.NewTable\<close> is built from the new value of
  the one and the kept value of the other.
\<close>

theorem wake_records_one_half_only:
  "svccfg (watchBackend_iter env format (Svc v) s) = v \<and>
   mancfg (watchBackend_iter env format (Svc v) s) = mancfg s \<and>
   mancfg (watchBackend_iter env format (Man v) s) = v \<and>
   svccfg (watchBackend_iter env format (Man v) s) = svccfg s \<and>
   merged (receive (Svc v) s) = v @ [newline] @ mancfg s \<and>
   merged (receive (Man v) s) = svccfg s @ [newline] @ v \<and>
   (merged (receive ev s) \<noteq> lastcfg s \<longrightarrow>
      take (Suc (length (trace s))) (trace (watchBackend_iter env format ev s)) =
        trace s @ [NewTable_call (merged (receive ev s))]) \<and>
   svccfg (init_state t0) = [] \<and> mancfg (init_state t0) = []"
  by (cases ev) (simp_all add: watchBackend_iter_def Let_def receive_def merged_def init_state_def
      split: sum.splits)

theorem wake_records_one_half_witness:
  "merged (receive (Man ''b'') half_applied) \<noteq> lastcfg half_applied \<and>
   svccfg (watchBackend_iter example_env ''all'' (Man ''b'') half_applied) = ''a'' \<and>
   mancfg (watchBackend_iter example_env ''all'' (Man ''b'') half_applied) = ''b'' \<and>
   take 1 (trace (watchBackend_iter example_env ''all'' (Man ''b'') half_applied)) =
     [NewTable_call (''a'' @ [newline] @ ''b'')]"
proof -
  have h: "merged (receive (Man ''b'') half_applied) \<noteq> lastcfg half_applied"
    by (simp add: merged_def receive_def half_applied_def)
  have m: "merged (receive (Man ''b'') half_applied) = ''a'' @ [newline] @ ''b''"
    by (simp add: merged_def receive_def half_applied_def)
  have v: "svccfg half_applied = ''a''" "trace half_applied = []"
    by (simp_all add: half_applied_def)
  from wake_records_one_half_only
         [of example_env "''all''" "''b''" half_applied "Man ''b''" "table half_applied"] h
  show ?thesis
    by (simp add: m v)
qed

text \<open>
  Claim C9. The variable \<open>last\<close> changes in an iteration only when \<open>route.NewTable\<close>
  succeeded on the merged text and the table was published with \<open>route.SetTable\<close>;
  it is then that text. So after a parse failure \<open>last\<close> is unchanged, and a next
  wake that leaves the same pair pending hands the same merged text to
  \<open>route.NewTable\<close> again: the comparison with \<open>last\<close> does not suppress the retry.
\<close>

theorem last_updated_only_after_publish:
  "(lastcfg (watchBackend_iter env format ev s) \<noteq> lastcfg s \<longrightarrow>
      (\<exists>t. NewTable env (merged (receive ev s)) = Inr t \<and>
           table (watchBackend_iter env format ev s) = t \<and>
           SetTable_call t \<in> set (trace (watchBackend_iter env format ev s)) \<and>
           lastcfg (watchBackend_iter env format ev s) = merged (receive ev s))) \<and>
   (NewTable env (merged (receive ev' s')) = Inl err \<and>
    merged (receive ev' s') \<noteq> lastcfg s' \<and>
    pending (receive ev2 (watchBackend_iter env format ev' s')) = pending (receive ev' s') \<longrightarrow>
      lastcfg (watchBackend_iter env format ev' s') = lastcfg s' \<and>
      trace (watchBackend_iter env format ev2 (watchBackend_iter env format ev' s')) =
        trace (watchBackend_iter env format ev' s')
          @ [NewTable_call (merged (receive ev' s')), Logged (Printf ''[WARN] %s'' [err])])"
proof (intro conjI impI)
  assume a: "lastcfg (watchBackend_iter env format ev s) \<noteq> lastcfg s"
  show "\<exists>t. NewTable env (merged (receive ev s)) = Inr t \<and>
           table (watchBackend_iter env format ev s) = t \<and>
           SetTable_call t \<in> set (trace (watchBackend_iter env format ev s)) \<and>
           lastcfg (watchBackend_iter env format ev s) = merged (receive ev s)"
  proof (cases "merged (receive ev s) = lastcfg s")
    case True
    with a show ?thesis by (simp add: iter_same lastcfg_receive)
  next
    case False
    show ?thesis
    proof (cases "NewTable env (merged (receive ev s))")
      case (Inl e)
      with a show ?thesis by (simp add: iter_fail [OF False Inl] lastcfg_receive)
    next
      case (Inr t)
      show ?thesis by (simp add: iter_ok [OF False Inr] Inr)
    qed
  qed
next
  assume h: "NewTable env (merged (receive ev' s')) = Inl err \<and>
    merged (receive ev' s') \<noteq> lastcfg s' \<and>
    pending (receive ev2 (watchBackend_iter env format ev' s')) = pending (receive ev' s')"
  let ?s1 = "watchBackend_iter env format ev' s'"
  from h have f1: "NewTable env (merged (receive ev' s')) = Inl err"
    and d1: "merged (receive ev' s') \<noteq> lastcfg s'"
    and p: "pending (receive ev2 ?s1) = pending (receive ev' s')"
    by simp_all
  have s1: "?s1 = (receive ev' s')\<lparr>trace := trace s' @ [NewTable_call (merged (receive ev' s')),
                                         Logged (Printf ''[WARN] %s'' [err])]\<rparr>"
    by (rule iter_fail [OF d1 f1])
  have l1: "lastcfg ?s1 = lastcfg s'"
    by (simp add: s1 lastcfg_receive)
  then show "lastcfg ?s1 = lastcfg s'" .
  have m2: "merged (receive ev2 ?s1) = merged (receive ev' s')"
    by (rule pending_merged [OF p])
  have d2: "merged (receive ev2 ?s1) \<noteq> lastcfg ?s1"
    by (simp only: m2 l1) (rule d1)
  have f2: "NewTable env (merged (receive ev2 ?s1)) = Inl err"
    by (simp only: m2 f1)
  have "trace (watchBackend_iter env format ev2 ?s1) =
          trace ?s1 @ [NewTable_call (merged (receive ev2 ?s1)), Logged (Printf ''[WARN] %s'' [err])]"
    by (subst iter_fail [OF d2 f2]) simp
  then show "trace (watchBackend_iter env format ev2 ?s1) =
          trace ?s1 @ [NewTable_call (merged (receive ev' s')), Logged (Printf ''[WARN] %s'' [err])]"
    by (simp only: m2)
qed

theorem last_updated_only_after_publish_witness:
  "lastcfg (watchBackend_iter example_env ''all'' (Svc ''a'') (init_state [''old'']))
     \<noteq> lastcfg (init_state [''old'']) \<and>
   table (watchBackend_iter example_env ''all'' (Svc ''a'') (init_state [''old''])) = [''a'', []] \<and>
   NewTable example_env (merged (receive (Svc ''a!'') (init_state [''old''])))
     = Inl ''syntax error'' \<and>
   merged (receive (Svc ''a!'') (init_state [''old''])) \<noteq> lastcfg (init_state [''old'']) \<and>
   pending (receive (Svc ''a!'')
       (watchBackend_iter example_env ''all'' (Svc ''a!'') (init_state [''old''])))
     = pending (receive (Svc ''a!'') (init_state [''old''])) \<and>
   trace (watchBackend_iter example_env ''all'' (Svc ''a!'')
       (watchBackend_iter example_env ''all'' (Svc ''a!'') (init_state [''old'']))) =
     [NewTable_call (''a!'' @ [newline]), Logged (Printf ''[WARN] %s'' [''syntax error'']),
      NewTable_call (''a!'' @ [newline]), Logged (Printf ''[WARN] %s'' [''syntax error''])]"
proof -
  let ?s = "init_state [''old'']"
  have a1: "lastcfg (watchBackend_iter example_env ''all'' (Svc ''a'') ?s) \<noteq> lastcfg ?s"
    by (simp add: example_step_ok) (simp add: init_state_def)
  have a2: "table (watchBackend_iter example_env ''all'' (Svc ''a'') ?s) = [''a'', []]"
    by (simp add: example_step_ok)
  have b1: "NewTable example_env (merged (receive (Svc ''a!'') ?s)) = Inl ''syntax error''"
    by (simp only: example_merged_bad example_parse_bad)
  have b2: "merged (receive (Svc ''a!'') ?s) \<noteq> lastcfg ?s"
    by (simp add: example_merged_bad) (simp add: init_state_def)
  have b3: "pending (receive (Svc ''a!'') (watchBackend_iter example_env ''all'' (Svc ''a!'') ?s))
              = pending (receive (Svc ''a!'') ?s)"
    by (simp add: example_step_bad) (simp add: pending_def receive_def init_state_def)
  have tr1: "trace (watchBackend_iter example_env ''all'' (Svc ''a!'') ?s) =
     [NewTable_call [CHR ''a'', CHR ''!'', CHR 0x0A], Logged (Printf ''[WARN] %s'' [''syntax error''])]"
    by (simp add: example_step_bad)
  have c: "trace (watchBackend_iter example_env ''all'' (Svc ''a!'')
             (watchBackend_iter example_env ''all'' (Svc ''a!'') ?s)) =
           trace (watchBackend_iter example_env ''all'' (Svc ''a!'') ?s)
             @ [NewTable_call (merged (receive (Svc ''a!'') ?s)),
                Logged (Printf ''[WARN] %s'' [''syntax error''])]"
    using last_updated_only_after_publish [of example_env "''all''" "Svc ''a''" ?s "Svc ''a!''" ?s "''syntax error''" "Svc ''a!''"]
      b1 b2 b3 by blast
  have d: "trace (watchBackend_iter example_env ''all'' (Svc ''a!'')
             (watchBackend_iter example_env ''all'' (Svc ''a!'') ?s)) =
     [NewTable_call (''a!'' @ [newline]), Logged (Printf ''[WARN] %s'' [''syntax error'']),
      NewTable_call (''a!'' @ [newline]), Logged (Printf ''[WARN] %s'' [''syntax error''])]"
    by (simp only: c tr1 example_merged_bad) (simp add: newline_def)
  from a1 a2 b1 b2 b3 d show ?thesis by blast
qed

text \<open>
  Claim C2, as the code has it. The merged text is the service text, a line feed, then
  the manual text. An iteration calls \<open>route.NewTable\<close> exactly when the merged text
  differs from the text applied last, and calls \<open>route.SetTable\<close> exactly when, in
  addition, \<open>route.NewTable\<close> succeeds. When a merged text that differs from the one
  applied last parses, a second wake that leaves the same pair pending is a no-op: the
  two wakes together make one call of \<open>route.NewTable\<close> and one of
  \<open>route.SetTable\<close>.
\<close>

theorem second_feed_of_applied_pair_is_noop:
  "merged s = svccfg s @ [newline] @ mancfg s \<and>
   rebuilds (trace (watchBackend_iter env format ev s)) =
     rebuilds (trace s) + (if merged (receive ev s) = lastcfg s then 0 else 1) \<and>
   publishes (trace (watchBackend_iter env format ev s)) =
     publishes (trace s) +
       (if merged (receive ev s) \<noteq> lastcfg s \<and> \<not> isl (NewTable env (merged (receive ev s)))
        then 1 else 0) \<and>
   (merged (receive ev s) \<noteq> lastcfg s \<and> NewTable env (merged (receive ev s)) = Inr t \<and>
    pending (receive ev2 (watchBackend_iter env format ev s)) = pending (receive ev s) \<longrightarrow>
      rebuilds (trace (watchBackend_iter env format ev2 (watchBackend_iter env format ev s)))
        = rebuilds (trace s) + 1 \<and>
      publishes (trace (watchBackend_iter env format ev2 (watchBackend_iter env format ev s)))
        = publishes (trace s) + 1 \<and>
      trace (watchBackend_iter env format ev2 (watchBackend_iter env format ev s))
        = trace (watchBackend_iter env format ev s))"
proof (intro conjI impI)
  show "merged s = svccfg s @ [newline] @ mancfg s" by (simp add: merged_def)
  show "rebuilds (trace (watchBackend_iter env format ev s)) =
     rebuilds (trace s) + (if merged (receive ev s) = lastcfg s then 0 else 1)"
    by (rule rebuilds_iter)
  show "publishes (trace (watchBackend_iter env format ev s)) =
     publishes (trace s) +
       (if merged (receive ev s) \<noteq> lastcfg s \<and> \<not> isl (NewTable env (merged (receive ev s)))
        then 1 else 0)"
    by (rule publishes_iter)
next
  assume h: "merged (receive ev s) \<noteq> lastcfg s \<and> NewTable env (merged (receive ev s)) = Inr t \<and>
    pending (receive ev2 (watchBackend_iter env format ev s)) = pending (receive ev s)"
  let ?s1 = "watchBackend_iter env format ev s"
  from h have d1: "merged (receive ev s) \<noteq> lastcfg s"
    and ok: "NewTable env (merged (receive ev s)) = Inr t"
    and p: "pending (receive ev2 ?s1) = pending (receive ev s)"
    by simp_all
  have l1: "lastcfg ?s1 = merged (receive ev s)"
    by (simp add: iter_ok [OF d1 ok])
  have m2: "merged (receive ev2 ?s1) = merged (receive ev s)"
    by (rule pending_merged [OF p])
  have same: "merged (receive ev2 ?s1) = lastcfg ?s1"
    by (simp only: m2 l1)
  have s2: "watchBackend_iter env format ev2 ?s1 = receive ev2 ?s1"
    by (rule iter_same [OF same])
  show tr: "trace (watchBackend_iter env format ev2 ?s1) = trace ?s1"
    by (simp only: s2 trace_receive)
  have r1: "rebuilds (trace ?s1) = rebuilds (trace s) + 1"
    using d1 by (simp add: rebuilds_iter)
  have p1: "publishes (trace ?s1) = publishes (trace s) + 1"
    using d1 ok by (simp add: publishes_iter)
  show "rebuilds (trace (watchBackend_iter env format ev2 ?s1)) = rebuilds (trace s) + 1"
    by (simp only: tr r1)
  show "publishes (trace (watchBackend_iter env format ev2 ?s1)) = publishes (trace s) + 1"
    by (simp only: tr p1)
qed

theorem second_feed_of_applied_pair_witness:
  "merged (receive (Svc ''a'') (init_state [''old''])) \<noteq> lastcfg (init_state [''old'']) \<and>
   NewTable example_env (merged (receive (Svc ''a'') (init_state [''old''])))
      = Inr [''a'', []] \<and>
   pending (receive (Svc ''a'')
       (watchBackend_iter example_env ''all'' (Svc ''a'') (init_state [''old''])))
     = pending (receive (Svc ''a'') (init_state [''old''])) \<and>
   rebuilds (trace (watchBackend_iter example_env ''all'' (Svc ''a'')
       (watchBackend_iter example_env ''all'' (Svc ''a'') (init_state [''old''])))) = 1 \<and>
   publishes (trace (watchBackend_iter example_env ''all'' (Svc ''a'')
       (watchBackend_iter example_env ''all'' (Svc ''a'') (init_state [''old''])))) = 1"
proof -
  let ?s = "init_state [''old'']"
  have h1: "merged (receive (Svc ''a'') ?s) \<noteq> lastcfg ?s"
    by (simp add: example_merged_ok) (simp add: init_state_def)
  have h2: "NewTable example_env (merged (receive (Svc ''a'') ?s)) = Inr [''a'', []]"
    by (simp only: example_merged_ok example_parse_ok)
  have h3: "pending (receive (Svc ''a'') (watchBackend_iter example_env ''all'' (Svc ''a'') ?s))
     = pending (receive (Svc ''a'') ?s)"
    by (simp add: example_step_ok) (simp add: pending_def receive_def init_state_def)
  have z: "rebuilds (trace ?s) = 0" "publishes (trace ?s) = 0"
    by (simp_all add: init_state_def rebuilds_def publishes_def)
  have c: "rebuilds (trace (watchBackend_iter example_env ''all'' (Svc ''a'')
               (watchBackend_iter example_env ''all'' (Svc ''a'') ?s))) = rebuilds (trace ?s) + 1 \<and>
           publishes (trace (watchBackend_iter example_env ''all'' (Svc ''a'')
               (watchBackend_iter example_env ''all'' (Svc ''a'') ?s))) = publishes (trace ?s) + 1"
    using second_feed_of_applied_pair_is_noop [of ?s example_env "''all''" "Svc ''a''" "[''a'', []]" "Svc ''a''"] h1 h2 h3
    by blast
  from c z h1 h2 h3 show ?thesis by simp
qed

text \<open>
  Claim C2 as stated fails for a pair whose merged text does not parse: the text
  applied last is not updated, so the same pair fed twice is handed to
  \<open>route.NewTable\<close> twice, and no table is published.
\<close>

theorem failing_pair_is_rebuilt_twice:
  "rebuilds (trace (watchBackend example_env example_cfg [''old''] [Svc ''a!'', Svc ''a!''])) = 2 \<and>
   publishes (trace (watchBackend example_env example_cfg [''old''] [Svc ''a!'', Svc ''a!''])) = 0"
  by (simp add: watchBackend_def example_step_bad_any example_step_bad_again
      rebuilds_def publishes_def)

section \<open>Properties of the Lookup functions\<close>

text \<open>
  Claim C8. When the table lookup finds no target for an HTTP request, or for an SNI
  server name, the proxy's \<open>Lookup\<close> function logs one \<open>No route\<close> warning and
  returns \<open>nil\<close>; it returns to its caller, which answers the request.
\<close>

theorem lookup_without_route_returns_none:
  "(table_Lookup tbl r (Header_Get r ''trace'') (pick proxy) (match proxy) = None \<longrightarrow>
      HTTPProxy_Lookup table_Lookup proxy tbl r =
        (None, [Print [''[WARN] No route for '', Host r, URL r]])) \<and>
   (table_LookupHost tbl' serverName (route_Picker (Strategy (Proxy cfg))) = None \<longrightarrow>
      TCPSNIProxy_Lookup table_LookupHost route_Picker cfg tbl' serverName =
        (None, [Print [''[WARN] No route for '', serverName]]))"
  by (simp add: HTTPProxy_Lookup_def TCPSNIProxy_Lookup_def Let_def)

theorem lookup_without_route_witness:
  "host_list_Lookup [''a''] example_request (Header_Get example_request ''trace'')
      (pick (fst (newHTTPProxy example_Picker example_Matcher example_cfg)))
      (match (fst (newHTTPProxy example_Picker example_Matcher example_cfg))) = None \<and>
   host_list_LookupHost [''a''] ''example.com'' (example_Picker (Strategy (Proxy example_cfg))) = None \<and>
   HTTPProxy_Lookup host_list_Lookup (fst (newHTTPProxy example_Picker example_Matcher example_cfg))
      [''a''] example_request = (None, [Print [''[WARN] No route for '', ''example.com'', ''/foo'']]) \<and>
   TCPSNIProxy_Lookup host_list_LookupHost example_Picker example_cfg [''a''] ''example.com''
     = (None, [Print [''[WARN] No route for '', ''example.com'']])"
proof -
  have h1: "host_list_Lookup [''a''] example_request (Header_Get example_request ''trace'')
      (pick (fst (newHTTPProxy example_Picker example_Matcher example_cfg)))
      (match (fst (newHTTPProxy example_Picker example_Matcher example_cfg))) = None"
    by (simp add: host_list_Lookup_def example_request_def)
  have h2: "host_list_LookupHost [''a''] ''example.com''
      (example_Picker (Strategy (Proxy example_cfg))) = None"
    by (simp add: host_list_LookupHost_def)
  have v: "Host example_request = ''example.com''" "URL example_request = ''/foo''"
    by (simp_all add: example_request_def)
  from lookup_without_route_returns_none [of host_list_Lookup "[''a'']" example_request
              "fst (newHTTPProxy example_Picker example_Matcher example_cfg)"
              host_list_LookupHost "[''a'']" "''example.com''" example_Picker example_cfg] h1 h2
  show ?thesis by (simp add: v)
qed

section \<open>Properties of initBackend\<close>

lemma loop_unknown:
  "backend_switch cfg = None \<Longrightarrow>
   initBackend_loop cfg deadline obs =
     (Some (Fatal [''[FATAL] Unknown registry backend '', Backend cfg]), [])"
  by (cases obs) simp_all

lemma loop_success:
  "backend_switch cfg = Some ctor \<Longrightarrow> fst (try_register ctor a) = None \<Longrightarrow>
   initBackend_loop cfg deadline (a # rest) = (Some Returned, snd (try_register ctor a))"
  by simp

lemma loop_timeout:
  "backend_switch cfg = Some ctor \<Longrightarrow> fst (try_register ctor a) = Some e \<Longrightarrow> deadline < now a \<Longrightarrow>
   initBackend_loop cfg deadline (a # rest) =
     (Some (Fatal [''[FATAL] Timeout registering backend.'']),
      snd (try_register ctor a) @ [Init_log (Print [''[WARN] Error initializing backend. '', e])])"
  by (simp add: emit_def)

lemma loop_shutdown:
  "backend_switch cfg = Some ctor \<Longrightarrow> fst (try_register ctor a) = Some e \<Longrightarrow> \<not> deadline < now a \<Longrightarrow>
   shutting_down a \<Longrightarrow>
   initBackend_loop cfg deadline (a # rest) =
     (Some (Exit 1),
      snd (try_register ctor a) @ [Init_log (Print [''[WARN] Error initializing backend. '', e]),
                                     Sleep (Retry cfg)])"
  by (simp add: emit_def)

lemma loop_retry:
  "backend_switch cfg = Some ctor \<Longrightarrow> fst (try_register ctor a) = Some e \<Longrightarrow> \<not> deadline < now a \<Longrightarrow>
   \<not> shutting_down a \<Longrightarrow>
   initBackend_loop cfg deadline (a # rest) =
     emit (snd (try_register ctor a) @ [Init_log (Print [''[WARN] Error initializing backend. '', e]),
                                     Sleep (Retry cfg)])
       (initBackend_loop cfg deadline rest)"
  by (simp add: emit_def)

end
